theory Spec2Isabelle
  imports Complex_Main "HOL-Library.AList"
begin

section \<open>Values exchanged with the text-generation backend\<close>

text \<open>
  The pipeline of \<^verbatim>\<open>services/llm_service.py\<close> works on what \<^verbatim>\<open>json.loads\<close> returns:
  \<^verbatim>\<open>None\<close>, booleans, integers, floats, strings, lists and dictionaries with string keys.
  A Python float is a finite number, an infinity or NaN.  A dictionary keeps its
  insertion order, so it is an association list; \<^verbatim>\<open>k in d\<close> is \<open>has_key\<close>,
  \<^verbatim>\<open>d[k]\<close> is \<open>map_of d k\<close>, and \<^verbatim>\<open>d[k] = v\<close> is \<open>AList.update k v d\<close>
  (the value is replaced in place when the key is there, appended otherwise).
\<close>

datatype pyfloat = Finite real | PosInf | NegInf | NaN

datatype json =
    JNull
  | JBool bool
  | JInt int
  | JFloat pyfloat
  | JString string
  | JArray "json list"
  | JObject "(string \<times> json) list"

type_synonym dict = "(string \<times> json) list"

definition has_key :: "string \<Rightarrow> (string \<times> 'v) list \<Rightarrow> bool" where
  "has_key k d = (map_of d k \<noteq> None)"

text \<open>\<^verbatim>\<open>if k not in d: d[k] = v\<close>\<close>

definition set_if_missing :: "string \<Rightarrow> json \<Rightarrow> dict \<Rightarrow> dict" where
  "set_if_missing k v d = (if has_key k d then d else AList.update k v d)"

section \<open>Normalizer: \<^verbatim>\<open>normalize_intent_data\<close>\<close>

text \<open>
  The loop over \<^verbatim>\<open>entities\<close>: \<open>fixed_entities\<close> is the accumulator the source appends to.
  A string becomes an object with the keys \<^verbatim>\<open>type\<close> and \<^verbatim>\<open>name\<close>, in that order; a
  dictionary with \<^verbatim>\<open>name\<close> and without \<^verbatim>\<open>type\<close> gets \<^verbatim>\<open>type\<close>; an entry of any other
  type reaches neither branch and is not appended.
\<close>

definition entity_of_string :: "string \<Rightarrow> json" where
  "entity_of_string entity = JObject [(''type'', JString ''ENTITY''), (''name'', JString entity)]"

definition entity_of_dict :: "dict \<Rightarrow> json" where
  "entity_of_dict entity =
     JObject (if has_key ''name'' entity \<and> \<not> has_key ''type'' entity
              then AList.update ''type'' (JString ''ENTITY'') entity
              else entity)"

fun fix_entities :: "json list \<Rightarrow> json list \<Rightarrow> json list" where
  "fix_entities fixed_entities [] = fixed_entities"
| "fix_entities fixed_entities (JString entity # entities) =
     fix_entities (fixed_entities @ [entity_of_string entity]) entities"
| "fix_entities fixed_entities (JObject entity # entities) =
     fix_entities (fixed_entities @ [entity_of_dict entity]) entities"
| "fix_entities fixed_entities (_ # entities) = fix_entities fixed_entities entities"

definition normalize_entities_involved :: "dict \<Rightarrow> dict" where
  "normalize_entities_involved normalized =
     (case map_of normalized ''entities_involved'' of
        Some (JArray entities) \<Rightarrow>
          AList.update ''entities_involved'' (JArray (fix_entities [] entities)) normalized
      | _ \<Rightarrow> normalized)"

definition normalize_payload :: "dict \<Rightarrow> dict" where
  "normalize_payload normalized =
     (case map_of normalized ''payload'' of
        None \<Rightarrow>
          AList.update ''payload''
            (JObject [(''explicit'', JObject []), (''implicit'', JObject [])]) normalized
      | Some (JObject payload) \<Rightarrow>
          (if \<not> has_key ''explicit'' payload \<and> \<not> has_key ''implicit'' payload
           then AList.update ''payload''
                  (JObject [(''explicit'', JObject payload), (''implicit'', JObject [])]) normalized
           else AList.update ''payload''
                  (JObject (set_if_missing ''implicit'' (JObject [])
                             (set_if_missing ''explicit'' (JObject []) payload))) normalized)
      | Some _ \<Rightarrow> normalized)"

definition normalize_constraints :: "dict \<Rightarrow> dict" where
  "normalize_constraints normalized =
     (case map_of normalized ''constraints'' of
        None \<Rightarrow>
          AList.update ''constraints''
            (JObject [(''must_not_override_existing'', JBool True),
                      (''additional_constraints'', JObject [])]) normalized
      | Some (JObject constraints) \<Rightarrow>
          AList.update ''constraints''
            (JObject (set_if_missing ''additional_constraints'' (JObject [])
                       (set_if_missing ''must_not_override_existing'' (JBool True) constraints)))
            normalized
      | Some _ \<Rightarrow> normalized)"

definition normalize_validation_requirements :: "dict \<Rightarrow> dict" where
  "normalize_validation_requirements normalized =
     (case map_of normalized ''validation_requirements'' of
        None \<Rightarrow>
          AList.update ''validation_requirements''
            (JObject [(''schema_validation'', JBool True),
                      (''duplicate_check'', JBool True),
                      (''additional_validations'', JObject [])]) normalized
      | Some (JObject val_reqs) \<Rightarrow>
          AList.update ''validation_requirements''
            (JObject (set_if_missing ''additional_validations'' (JObject [])
                       (set_if_missing ''duplicate_check'' (JBool True)
                         (set_if_missing ''schema_validation'' (JBool True) val_reqs))))
            normalized
      | Some _ \<Rightarrow> normalized)"

definition normalize_optional_lists :: "dict \<Rightarrow> dict" where
  "normalize_optional_lists normalized =
     set_if_missing ''suggestions'' (JArray [])
       (set_if_missing ''ambiguities'' (JArray [])
         (set_if_missing ''assumptions'' (JArray []) normalized))"

text \<open>
  The five blocks of the function, in the source's order.  The source mutates the nested
  dictionaries in place, which the shallow copy shares with the argument; every nested
  dictionary of a decoded text is a separate object, so the returned record is the one
  computed here.
\<close>

definition normalize_intent_data :: "dict \<Rightarrow> dict" where
  "normalize_intent_data intent_data =
     normalize_optional_lists
       (normalize_validation_requirements
         (normalize_constraints
           (normalize_payload
             (normalize_entities_involved intent_data))))"


text \<open>
  What the loop does, entry by entry: \<open>is_str_or_dict\<close> says whether one of the two
  \<^verbatim>\<open>isinstance\<close> branches is taken, \<open>repaired_entity\<close> is what that branch appends.
\<close>
definition is_str_or_dict :: "json \<Rightarrow> bool" where
  "is_str_or_dict e = (case e of JString _ \<Rightarrow> True | JObject _ \<Rightarrow> True | _ \<Rightarrow> False)"

definition repaired_entity :: "json \<Rightarrow> json" where
  "repaired_entity e =
     (case e of JString s \<Rightarrow> entity_of_string s | JObject ob \<Rightarrow> entity_of_dict ob | _ \<Rightarrow> e)"

text \<open>
  The canonical shape of the four structured keys, as section 3 of the specification gives
  it: \<^verbatim>\<open>entities_involved\<close> is a sequence of records that carry both a type and a name,
  \<^verbatim>\<open>payload\<close> has its two sub-maps, \<^verbatim>\<open>constraints\<close> and
  \<^verbatim>\<open>validation_requirements\<close> are fully-shaped records.  The other keys have no shape
  that the normalizer looks at.
\<close>
definition string_at :: "dict \<Rightarrow> string \<Rightarrow> bool" where
  "string_at r k = (case map_of r k of Some (JString _) \<Rightarrow> True | _ \<Rightarrow> False)"

definition bool_at :: "dict \<Rightarrow> string \<Rightarrow> bool" where
  "bool_at r k = (case map_of r k of Some (JBool _) \<Rightarrow> True | _ \<Rightarrow> False)"

definition map_at :: "dict \<Rightarrow> string \<Rightarrow> bool" where
  "map_at r k = (case map_of r k of Some (JObject _) \<Rightarrow> True | _ \<Rightarrow> False)"

definition canonical_entity :: "json \<Rightarrow> bool" where
  "canonical_entity e =
     (case e of JObject r \<Rightarrow> string_at r ''type'' \<and> string_at r ''name'' | _ \<Rightarrow> False)"

definition canonical_shape :: "string \<Rightarrow> json \<Rightarrow> bool" where
  "canonical_shape k v =
     (if k = ''entities_involved'' then
        (case v of JArray es \<Rightarrow> list_all canonical_entity es | _ \<Rightarrow> False)
      else if k = ''payload'' then
        (case v of JObject r \<Rightarrow> map_at r ''explicit'' \<and> map_at r ''implicit'' | _ \<Rightarrow> False)
      else if k = ''constraints'' then
        (case v of JObject r \<Rightarrow>
             bool_at r ''must_not_override_existing'' \<and> map_at r ''additional_constraints''
         | _ \<Rightarrow> False)
      else if k = ''validation_requirements'' then
        (case v of JObject r \<Rightarrow>
             bool_at r ''schema_validation'' \<and> bool_at r ''duplicate_check''
             \<and> map_at r ''additional_validations''
         | _ \<Rightarrow> False)
      else True)"

section \<open>Output extractor: \<^verbatim>\<open>parse_llm_output\<close>\<close>

text \<open>
  The string methods the extractor calls.  A text is a list of code points below 256;
  \<^verbatim>\<open>str.strip()\<close> removes the characters for which \<^verbatim>\<open>isspace()\<close> holds in that range.
  \<open>find_sub\<close> is the offset of the first occurrence; \<^verbatim>\<open>s.find(sub, start)\<close> and
  \<^verbatim>\<open>s.rfind(sub)\<close> return \<open>-1\<close> when there is none.  \<^verbatim>\<open>s[i:j]\<close> counts a negative
  index from the end and clips both indices to the text, so \<^verbatim>\<open>s[start:-1]\<close> (what the
  extractor computes when the closing fence is missing) ends one character before the end.
\<close>

definition isspace :: "char \<Rightarrow> bool" where
  "isspace c =
     (let n = (of_char c :: nat)
      in (9 \<le> n \<and> n \<le> 13) \<or> (28 \<le> n \<and> n \<le> 32) \<or> n = 133 \<or> n = 160)"

definition strip :: "string \<Rightarrow> string" where
  "strip s = rev (dropWhile isspace (rev (dropWhile isspace s)))"

fun startswith :: "string \<Rightarrow> string \<Rightarrow> bool" where
  "startswith s [] = True"
| "startswith [] (c # sub) = False"
| "startswith (x # s) (c # sub) = (x = c \<and> startswith s sub)"

fun find_sub :: "string \<Rightarrow> string \<Rightarrow> nat option" where
  "find_sub [] sub = (if sub = [] then Some 0 else None)"
| "find_sub (x # s) sub =
     (if startswith (x # s) sub then Some 0 else map_option Suc (find_sub s sub))"

definition contains :: "string \<Rightarrow> string \<Rightarrow> bool" where
  "contains s sub = (find_sub s sub \<noteq> None)"

definition str_find :: "string \<Rightarrow> string \<Rightarrow> nat \<Rightarrow> int" where
  "str_find s sub start =
     (case find_sub (drop start s) sub of None \<Rightarrow> - 1 | Some i \<Rightarrow> int (start + i))"

definition str_rfind :: "string \<Rightarrow> string \<Rightarrow> int" where
  "str_rfind s sub =
     (case find_sub (rev s) (rev sub) of
        None \<Rightarrow> - 1
      | Some i \<Rightarrow> int (length s - i - length sub))"

definition slice_index :: "nat \<Rightarrow> int \<Rightarrow> nat" where
  "slice_index n i = (if i < 0 then nat (max 0 (int n + i)) else min n (nat i))"

definition slice :: "string \<Rightarrow> int \<Rightarrow> int \<Rightarrow> string" where
  "slice s i j =
     (let a = slice_index (length s) i; b = slice_index (length s) j
      in take (b - a) (drop a s))"

text \<open>
  The exceptions that cross the functions modelled here.  \<^verbatim>\<open>json.JSONDecodeError\<close> is a
  subclass of \<^verbatim>\<open>ValueError\<close>; \<open>RetryError\<close> is the wrapper of the retry decorator;
  \<open>APIError\<close> stands for the exceptions of the client libraries.
\<close>

datatype exn =
    ValueError string
  | JSONDecodeError
  | ImportError string
  | TypeError
  | AttributeError
  | RetryError exn
  | APIError string

text \<open>
  \<^verbatim>\<open>json.loads\<close> belongs to the standard library: the extractor takes it as the parameter
  \<open>loads\<close>, \<open>None\<close> standing for \<^verbatim>\<open>JSONDecodeError\<close>.  The first \<^verbatim>\<open>json.loads\<close> is inside
  the \<^verbatim>\<open>try\<close>; the ones of the three branches are inside the handler, so their
  \<^verbatim>\<open>JSONDecodeError\<close> leaves the function.
\<close>

definition parse_llm_output :: "(string \<Rightarrow> json option) \<Rightarrow> string \<Rightarrow> exn + json" where
  "parse_llm_output loads raw_output =
     (case loads raw_output of
        Some v \<Rightarrow> Inr v
      | None \<Rightarrow>
          if contains raw_output ''```json'' then
            (let start = str_find raw_output ''```json'' 0 + 7;
                 end = str_find raw_output ''```'' (nat start);
                 json_str = strip (slice raw_output start end)
             in case loads json_str of Some v \<Rightarrow> Inr v | None \<Rightarrow> Inl JSONDecodeError)
          else if contains raw_output ''```'' then
            (let start = str_find raw_output ''```'' 0 + 3;
                 end = str_find raw_output ''```'' (nat start);
                 json_str = strip (slice raw_output start end)
             in case loads json_str of Some v \<Rightarrow> Inr v | None \<Rightarrow> Inl JSONDecodeError)
          else
            (let start = str_find raw_output ''{'' 0;
                 end = str_rfind raw_output ''}'' + 1
             in if start \<noteq> - 1 \<and> end > start then
                  (let json_str = slice raw_output start end
                   in case loads json_str of Some v \<Rightarrow> Inr v | None \<Rightarrow> Inl JSONDecodeError)
                else Inl (ValueError ''Could not extract valid JSON from LLM output'')))"

subsection \<open>A decoder to run examples\<close>

text \<open>
  \<open>json_loads\<close> decodes the JSON texts made of objects, arrays, strings without escapes,
  integers and the three literals, with the whitespace JSON allows; a repeated key keeps
  its first place and its last value, as a Python dictionary does.  It is what the closed
  examples below pass for \<open>loads\<close>; no text with a fraction, an exponent or an escape
  is given to it.  The recursion is on a fuel that the length of the text bounds.
\<close>

definition json_ws :: "char \<Rightarrow> bool" where
  "json_ws c = (c = CHR '' '' \<or> c = CHR 0x09 \<or> c = CHR 0x0A \<or> c = CHR 0x0D)"

definition skip_ws :: "string \<Rightarrow> string" where
  "skip_ws s = dropWhile json_ws s"

definition is_digit :: "char \<Rightarrow> bool" where
  "is_digit c = (48 \<le> (of_char c :: nat) \<and> (of_char c :: nat) \<le> 57)"

definition digit_value :: "char \<Rightarrow> int" where
  "digit_value c = int (of_char c) - 48"

fun scan_string :: "string \<Rightarrow> (string \<times> string) option" where
  "scan_string [] = None"
| "scan_string (c # cs) =
     (if c = CHR 0x22 then Some ([], cs)
      else if c = CHR 0x5C \<or> (of_char c :: nat) < 32 then None
      else map_option (\<lambda>(s, rest). (c # s, rest)) (scan_string cs))"

definition scan_digits :: "string \<Rightarrow> (int \<times> string) option" where
  "scan_digits s =
     (let ds = takeWhile is_digit s; rest = dropWhile is_digit s
      in if ds = [] \<or> (hd ds = CHR ''0'' \<and> length ds > 1) then None
         else if rest \<noteq> [] \<and> (hd rest = CHR ''.'' \<or> hd rest = CHR ''e'' \<or> hd rest = CHR ''E'')
         then None
         else Some (foldl (\<lambda>n c. 10 * n + digit_value c) 0 ds, rest))"

definition scan_number :: "string \<Rightarrow> (json \<times> string) option" where
  "scan_number s =
     (case s of
        [] \<Rightarrow> None
      | c # cs \<Rightarrow>
          if c = CHR ''-'' then map_option (\<lambda>(n, rest). (JInt (- n), rest)) (scan_digits cs)
          else map_option (\<lambda>(n, rest). (JInt n, rest)) (scan_digits s))"

definition dict_of_pairs :: "(string \<times> json) list \<Rightarrow> dict" where
  "dict_of_pairs pairs = foldl (\<lambda>d (k, v). AList.update k v d) [] pairs"

fun scan_value :: "nat \<Rightarrow> string \<Rightarrow> (json \<times> string) option"
  and scan_items :: "nat \<Rightarrow> string \<Rightarrow> (json list \<times> string) option"
  and scan_members :: "nat \<Rightarrow> string \<Rightarrow> ((string \<times> json) list \<times> string) option"
where
  "scan_value 0 s = None"
| "scan_value (Suc n) s =
     (case skip_ws s of
        [] \<Rightarrow> None
      | c # cs \<Rightarrow>
          if c = CHR ''{'' then
            (case skip_ws cs of
               [] \<Rightarrow> None
             | c' # cs' \<Rightarrow>
                 if c' = CHR ''}'' then Some (JObject [], cs')
                 else map_option (\<lambda>(ms, rest). (JObject (dict_of_pairs ms), rest))
                        (scan_members n (c' # cs')))
          else if c = CHR ''['' then
            (case skip_ws cs of
               [] \<Rightarrow> None
             | c' # cs' \<Rightarrow>
                 if c' = CHR '']'' then Some (JArray [], cs')
                 else map_option (\<lambda>(vs, rest). (JArray vs, rest)) (scan_items n (c' # cs')))
          else if c = CHR 0x22 then
            map_option (\<lambda>(str, rest). (JString str, rest)) (scan_string cs)
          else if startswith (c # cs) ''true'' then Some (JBool True, drop 4 (c # cs))
          else if startswith (c # cs) ''false'' then Some (JBool False, drop 5 (c # cs))
          else if startswith (c # cs) ''null'' then Some (JNull, drop 4 (c # cs))
          else scan_number (c # cs))"
| "scan_items 0 s = None"
| "scan_items (Suc n) s =
     (case scan_value n s of
        None \<Rightarrow> None
      | Some (v, rest) \<Rightarrow>
          (case skip_ws rest of
             [] \<Rightarrow> None
           | c # cs \<Rightarrow>
               if c = CHR '']'' then Some ([v], cs)
               else if c = CHR '','' then
                 map_option (\<lambda>(vs, rest'). (v # vs, rest')) (scan_items n cs)
               else None))"
| "scan_members 0 s = None"
| "scan_members (Suc n) s =
     (case skip_ws s of
        [] \<Rightarrow> None
      | q # qs \<Rightarrow>
          if q \<noteq> CHR 0x22 then None
          else
            (case scan_string qs of
               None \<Rightarrow> None
             | Some (k, rest) \<Rightarrow>
                 (case skip_ws rest of
                    [] \<Rightarrow> None
                  | c # cs \<Rightarrow>
                      if c \<noteq> CHR '':'' then None
                      else
                        (case scan_value n cs of
                           None \<Rightarrow> None
                         | Some (v, rest') \<Rightarrow>
                             (case skip_ws rest' of
                                [] \<Rightarrow> None
                              | c' # cs' \<Rightarrow>
                                  if c' = CHR ''}'' then Some ([(k, v)], cs')
                                  else if c' = CHR '','' then
                                    map_option (\<lambda>(ms, rest''). ((k, v) # ms, rest''))
                                      (scan_members n cs')
                                  else None)))))"

definition json_loads :: "string \<Rightarrow> json option" where
  "json_loads s =
     (case scan_value (Suc (length s)) s of
        None \<Rightarrow> None
      | Some (v, rest) \<Rightarrow> if skip_ws rest = [] then Some v else None)"

section \<open>Backend clients and the retry policy\<close>

text \<open>
  \<open>importable\<close> says which client packages the \<^verbatim>\<open>import\<close> of a constructor finds.
  Each constructor raises \<^verbatim>\<open>ImportError\<close> when its package is missing and
  \<^verbatim>\<open>ValueError\<close> when its key is \<^verbatim>\<open>None\<close> or empty.
\<close>

record settings =
  LLM_PROVIDER :: string
  OPENAI_API_KEY :: "string option"
  GROQ_API_KEY :: "string option"
  ANTHROPIC_API_KEY :: "string option"

definition falsy :: "string option \<Rightarrow> bool" where
  "falsy key = (key = None \<or> key = Some [])"

datatype provider = OpenAIProvider | GroqProvider | AnthropicProvider

definition OpenAIProvider_init :: "(string \<Rightarrow> bool) \<Rightarrow> settings \<Rightarrow> exn + provider" where
  "OpenAIProvider_init importable cfg =
     (if \<not> importable ''openai''
      then Inl (ImportError ''openai package not installed. Run: pip install openai'')
      else if falsy (OPENAI_API_KEY cfg) then Inl (ValueError ''OPENAI_API_KEY not configured'')
      else Inr OpenAIProvider)"

definition GroqProvider_init :: "(string \<Rightarrow> bool) \<Rightarrow> settings \<Rightarrow> exn + provider" where
  "GroqProvider_init importable cfg =
     (if \<not> importable ''groq''
      then Inl (ImportError ''groq package not installed. Run: pip install groq'')
      else if falsy (GROQ_API_KEY cfg) then Inl (ValueError ''GROQ_API_KEY not configured'')
      else Inr GroqProvider)"

definition AnthropicProvider_init :: "(string \<Rightarrow> bool) \<Rightarrow> settings \<Rightarrow> exn + provider" where
  "AnthropicProvider_init importable cfg =
     (if \<not> importable ''anthropic''
      then Inl (ImportError ''anthropic package not installed. Run: pip install anthropic'')
      else if falsy (ANTHROPIC_API_KEY cfg)
      then Inl (ValueError ''ANTHROPIC_API_KEY not configured'')
      else Inr AnthropicProvider)"

definition lower_char :: "char \<Rightarrow> char" where
  "lower_char c =
     (let n = (of_char c :: nat)
      in if (65 \<le> n \<and> n \<le> 90) \<or> (192 \<le> n \<and> n \<le> 222 \<and> n \<noteq> 215)
         then char_of (n + 32) else c)"

definition lower :: "string \<Rightarrow> string" where
  "lower s = map lower_char s"

definition get_llm_provider :: "(string \<Rightarrow> bool) \<Rightarrow> settings \<Rightarrow> exn + provider" where
  "get_llm_provider importable cfg =
     (let provider_name = lower (LLM_PROVIDER cfg)
      in if provider_name = ''openai'' then OpenAIProvider_init importable cfg
         else if provider_name = ''groq'' then GroqProvider_init importable cfg
         else if provider_name = ''anthropic'' then AnthropicProvider_init importable cfg
         else Inl (ValueError (''Unsupported LLM provider: '' @ provider_name)))"

text \<open>
  The three \<^verbatim>\<open>generate\<close> methods carry the same decorator,
  \<^verbatim>\<open>@retry(stop=stop_after_attempt(3), wait=wait_exponential(multiplier=1, min=2, max=10))\<close>,
  and re-raise whatever the client raised.  The decorator is the library's: it calls the
  method, returns its result, and on an exception either stops, raising \<^verbatim>\<open>RetryError\<close>
  around the last attempt (\<^verbatim>\<open>reraise\<close> is left at its default), or sleeps
  \<^verbatim>\<open>max(max(0, min), min(multiplier * 2 ** (attempt_number - 1), max))\<close> seconds and calls
  again.  \<open>call n\<close> is what the client does at the \<open>n\<close>-th call of this request; the
  result records the number of calls made and the delays slept.
\<close>

definition stop_after_attempt :: "nat \<Rightarrow> nat \<Rightarrow> bool" where
  "stop_after_attempt max_attempt_number attempt_number =
     (attempt_number \<ge> max_attempt_number)"

definition wait_exponential :: "int \<Rightarrow> int \<Rightarrow> int \<Rightarrow> nat \<Rightarrow> int" where
  "wait_exponential multiplier lo hi attempt_number =
     max (max 0 lo) (min (multiplier * 2 ^ (attempt_number - 1)) hi)"

record 'a retried =
  outcome :: "exn + 'a"
  attempts :: nat
  sleeps :: "int list"

function retrying ::
  "(nat \<Rightarrow> exn + 'a) \<Rightarrow> nat \<Rightarrow> int list \<Rightarrow> 'a retried" where
  "retrying call attempt_number slept =
     (case call attempt_number of
        Inr result \<Rightarrow> \<lparr>outcome = Inr result, attempts = attempt_number, sleeps = slept\<rparr>
      | Inl e \<Rightarrow>
          if stop_after_attempt 3 attempt_number
          then \<lparr>outcome = Inl (RetryError e), attempts = attempt_number, sleeps = slept\<rparr>
          else retrying call (attempt_number + 1)
                 (slept @ [wait_exponential 1 2 10 attempt_number]))"
  by pat_completeness auto
termination
  by (relation "measure (\<lambda>(call, attempt_number, slept). 3 - attempt_number)")
     (auto simp add: stop_after_attempt_def)

definition generate :: "(nat \<Rightarrow> exn + string) \<Rightarrow> string retried" where
  "generate call = retrying call 1 []"

text \<open>
  \<^verbatim>\<open>generate_intent\<close>.  The decoded value need not be a dictionary:
  \<^verbatim>\<open>intent_data.copy()\<close> raises \<^verbatim>\<open>AttributeError\<close> on a string, a number, a boolean or
  \<^verbatim>\<open>None\<close>, and a list fails with \<^verbatim>\<open>TypeError\<close> at the first subscript.  \<open>uuid4\<close> is
  the token \<^verbatim>\<open>str(uuid.uuid4())\<close> draws.
\<close>

definition normalize_decoded :: "json \<Rightarrow> exn + dict" where
  "normalize_decoded intent_data =
     (case intent_data of
        JObject d \<Rightarrow> Inr (normalize_intent_data d)
      | JArray _ \<Rightarrow> Inl TypeError
      | _ \<Rightarrow> Inl AttributeError)"

definition generate_intent ::
  "(string \<Rightarrow> bool) \<Rightarrow> settings \<Rightarrow> (nat \<Rightarrow> exn + string) \<Rightarrow> (string \<Rightarrow> json option) \<Rightarrow>
   string \<Rightarrow> string \<Rightarrow> dict retried" where
  "generate_intent importable cfg call loads uuid4 domain_pack_id =
     (case get_llm_provider importable cfg of
        Inl e \<Rightarrow> \<lparr>outcome = Inl e, attempts = 0, sleeps = []\<rparr>
      | Inr provider \<Rightarrow>
          (let r = generate call
           in case outcome r of
                Inl e \<Rightarrow> \<lparr>outcome = Inl e, attempts = attempts r, sleeps = sleeps r\<rparr>
              | Inr raw_output \<Rightarrow>
                  (case parse_llm_output loads raw_output of
                     Inl e \<Rightarrow> \<lparr>outcome = Inl e, attempts = attempts r, sleeps = sleeps r\<rparr>
                   | Inr decoded \<Rightarrow>
                       (case normalize_decoded decoded of
                          Inl e \<Rightarrow>
                            \<lparr>outcome = Inl e, attempts = attempts r, sleeps = sleeps r\<rparr>
                        | Inr intent_data \<Rightarrow>
                            \<lparr>outcome =
                               Inr (set_if_missing ''domain_pack_id'' (JString domain_pack_id)
                                     (set_if_missing ''intent_id'' (JString uuid4) intent_data)),
                             attempts = attempts r, sleeps = sleeps r\<rparr>))))"

section \<open>Validator: \<^verbatim>\<open>schemas/intention.py\<close>\<close>

datatype TargetSection =
    NAME | DESCRIPTION | VERSION | ENTITIES | KEY_TERMS | ENTITY_ALIASES
  | EXTRACTION_PATTERNS | BUSINESS_CONTEXT | RELATIONSHIP_TYPES | RELATIONSHIPS
  | BUSINESS_PATTERNS | REASONING_TEMPLATES | MULTIHOP_QUESTIONS | QUESTION_TEMPLATES
  | BUSINESS_RULES | VALIDATION_RULES

datatype Operation = ADD | UPDATE | DELETE | MERGE | SPLIT | REORDER

datatype ExecutionRisk = LOW | MEDIUM | HIGH

fun TargetSection_value :: "TargetSection \<Rightarrow> string" where
  "TargetSection_value NAME = ''name''"
| "TargetSection_value DESCRIPTION = ''description''"
| "TargetSection_value VERSION = ''version''"
| "TargetSection_value ENTITIES = ''entities''"
| "TargetSection_value KEY_TERMS = ''key_terms''"
| "TargetSection_value ENTITY_ALIASES = ''entity_aliases''"
| "TargetSection_value EXTRACTION_PATTERNS = ''extraction_patterns''"
| "TargetSection_value BUSINESS_CONTEXT = ''business_context''"
| "TargetSection_value RELATIONSHIP_TYPES = ''relationship_types''"
| "TargetSection_value RELATIONSHIPS = ''relationships''"
| "TargetSection_value BUSINESS_PATTERNS = ''business_patterns''"
| "TargetSection_value REASONING_TEMPLATES = ''reasoning_templates''"
| "TargetSection_value MULTIHOP_QUESTIONS = ''multihop_questions''"
| "TargetSection_value QUESTION_TEMPLATES = ''question_templates''"
| "TargetSection_value BUSINESS_RULES = ''business_rules''"
| "TargetSection_value VALIDATION_RULES = ''validation_rules''"

fun Operation_value :: "Operation \<Rightarrow> string" where
  "Operation_value ADD = ''ADD''"
| "Operation_value UPDATE = ''UPDATE''"
| "Operation_value DELETE = ''DELETE''"
| "Operation_value MERGE = ''MERGE''"
| "Operation_value SPLIT = ''SPLIT''"
| "Operation_value REORDER = ''REORDER''"

fun ExecutionRisk_value :: "ExecutionRisk \<Rightarrow> string" where
  "ExecutionRisk_value LOW = ''LOW''"
| "ExecutionRisk_value MEDIUM = ''MEDIUM''"
| "ExecutionRisk_value HIGH = ''HIGH''"

definition TargetSection_members :: "TargetSection list" where
  "TargetSection_members =
     [NAME, DESCRIPTION, VERSION, ENTITIES, KEY_TERMS, ENTITY_ALIASES, EXTRACTION_PATTERNS,
      BUSINESS_CONTEXT, RELATIONSHIP_TYPES, RELATIONSHIPS, BUSINESS_PATTERNS,
      REASONING_TEMPLATES, MULTIHOP_QUESTIONS, QUESTION_TEMPLATES, BUSINESS_RULES,
      VALIDATION_RULES]"

definition Operation_members :: "Operation list" where
  "Operation_members = [ADD, UPDATE, DELETE, MERGE, SPLIT, REORDER]"

definition ExecutionRisk_members :: "ExecutionRisk list" where
  "ExecutionRisk_members = [LOW, MEDIUM, HIGH]"

record EntityInvolved =
  entity_type :: string
  entity_name :: string

record IntentPayload =
  explicit :: dict
  implicit :: dict

record IntentConstraints =
  must_not_override_existing :: bool
  additional_constraints :: dict

record ValidationRequirements =
  schema_validation :: bool
  duplicate_check :: bool
  additional_validations :: "(string \<times> bool) list"

record IntentionSchema =
  intent_id :: string
  domain_pack_id :: string
  target_section :: TargetSection
  operation :: Operation
  intent_summary :: string
  confidence :: pyfloat
  entities_involved :: "EntityInvolved list"
  payload :: IntentPayload
  constraints :: IntentConstraints
  assumptions :: "string list"
  ambiguities :: "string list"
  suggestions :: "string list"
  validation_requirements :: ValidationRequirements
  execution_risk :: ExecutionRisk

text \<open>
  Validation collects one error list over all fields, in the order of declaration; an
  error is the path of the field and the kind of violation.  A field of a nested model or
  of a list is reported under the path of its parent.  \<open>lax\<close> holds the conversions that
  the validation library applies to an input that is not of the field's own JSON type (a
  numeric string or an integer for a float, \<^verbatim>\<open>"true"\<close> or \<open>1\<close> for a boolean); they are
  parameters of the model.
\<close>

datatype loc_item = Key string | Index nat

datatype problem =
    missing | string_type | float_type | bool_type | list_type | dict_type | model_type
  | enum | less_than_equal | greater_than_equal | value_error string

type_synonym 'a validated = "(loc_item list \<times> problem) list + 'a"

record lax =
  to_float :: "json \<Rightarrow> pyfloat option"
  to_bool :: "json \<Rightarrow> bool option"

text \<open>Comparisons of floats: every comparison with NaN is false.\<close>

fun float_le :: "pyfloat \<Rightarrow> pyfloat \<Rightarrow> bool" where
  "float_le NaN b = False"
| "float_le a NaN = False"
| "float_le NegInf b = True"
| "float_le a PosInf = True"
| "float_le (Finite x) (Finite y) = (x \<le> y)"
| "float_le a b = False"

fun float_lt :: "pyfloat \<Rightarrow> pyfloat \<Rightarrow> bool" where
  "float_lt NaN b = False"
| "float_lt a NaN = False"
| "float_lt (Finite x) (Finite y) = (x < y)"
| "float_lt NegInf NegInf = False"
| "float_lt NegInf b = True"
| "float_lt PosInf b = False"
| "float_lt a PosInf = True"
| "float_lt a b = False"

fun ap :: "('a \<Rightarrow> 'b) validated \<Rightarrow> 'a validated \<Rightarrow> 'b validated" where
  "ap (Inr f) (Inr x) = Inr (f x)"
| "ap (Inl es) (Inr x) = Inl es"
| "ap (Inr f) (Inl es) = Inl es"
| "ap (Inl es) (Inl es') = Inl (es @ es')"

definition located :: "loc_item \<Rightarrow> 'a validated \<Rightarrow> 'a validated" where
  "located l r = (case r of Inl es \<Rightarrow> Inl (map (\<lambda>(p, e). (l # p, e)) es) | Inr x \<Rightarrow> Inr x)"

definition required :: "string \<Rightarrow> (json \<Rightarrow> 'a validated) \<Rightarrow> dict \<Rightarrow> 'a validated" where
  "required k f d =
     (case map_of d k of None \<Rightarrow> Inl [([Key k], missing)] | Some v \<Rightarrow> located (Key k) (f v))"

definition optional ::
  "string \<Rightarrow> (json \<Rightarrow> 'a validated) \<Rightarrow> 'a \<Rightarrow> dict \<Rightarrow> 'a validated" where
  "optional k f dflt d = (case map_of d k of None \<Rightarrow> Inr dflt | Some v \<Rightarrow> located (Key k) (f v))"

definition str_field :: "json \<Rightarrow> string validated" where
  "str_field v = (case v of JString s \<Rightarrow> Inr s | _ \<Rightarrow> Inl [([], string_type)])"

definition float_field :: "lax \<Rightarrow> json \<Rightarrow> pyfloat validated" where
  "float_field lx v =
     (case v of
        JFloat x \<Rightarrow> Inr x
      | _ \<Rightarrow> (case to_float lx v of Some x \<Rightarrow> Inr x | None \<Rightarrow> Inl [([], float_type)]))"

definition bool_field :: "lax \<Rightarrow> json \<Rightarrow> bool validated" where
  "bool_field lx v =
     (case v of
        JBool b \<Rightarrow> Inr b
      | _ \<Rightarrow> (case to_bool lx v of Some b \<Rightarrow> Inr b | None \<Rightarrow> Inl [([], bool_type)]))"

definition dict_field :: "json \<Rightarrow> dict validated" where
  "dict_field v = (case v of JObject d \<Rightarrow> Inr d | _ \<Rightarrow> Inl [([], dict_type)])"

definition enum_field :: "('a \<Rightarrow> string) \<Rightarrow> 'a list \<Rightarrow> json \<Rightarrow> 'a validated" where
  "enum_field val members v =
     (case v of
        JString s \<Rightarrow>
          (case map_of (map (\<lambda>m. (val m, m)) members) s of
             Some m \<Rightarrow> Inr m
           | None \<Rightarrow> Inl [([], enum)])
      | _ \<Rightarrow> Inl [([], enum)])"

fun each_item :: "(json \<Rightarrow> 'a validated) \<Rightarrow> nat \<Rightarrow> json list \<Rightarrow> 'a list validated" where
  "each_item f i [] = Inr []"
| "each_item f i (x # xs) = ap (ap (Inr (#)) (located (Index i) (f x))) (each_item f (Suc i) xs)"

definition list_field :: "(json \<Rightarrow> 'a validated) \<Rightarrow> json \<Rightarrow> 'a list validated" where
  "list_field f v = (case v of JArray xs \<Rightarrow> each_item f 0 xs | _ \<Rightarrow> Inl [([], list_type)])"

fun each_entry ::
  "(json \<Rightarrow> 'a validated) \<Rightarrow> (string \<times> json) list \<Rightarrow> (string \<times> 'a) list validated" where
  "each_entry f [] = Inr []"
| "each_entry f ((k, v) # kvs) =
     ap (ap (Inr (\<lambda>x r. (k, x) # r)) (located (Key k) (f v))) (each_entry f kvs)"

definition dict_of_field ::
  "(json \<Rightarrow> 'a validated) \<Rightarrow> json \<Rightarrow> (string \<times> 'a) list validated" where
  "dict_of_field f v = (case v of JObject d \<Rightarrow> each_entry f d | _ \<Rightarrow> Inl [([], dict_type)])"

definition EntityInvolved_validate :: "json \<Rightarrow> EntityInvolved validated" where
  "EntityInvolved_validate v =
     (case v of
        JObject d \<Rightarrow>
          ap (ap (Inr (\<lambda>t n. \<lparr>entity_type = t, entity_name = n\<rparr>))
                (required ''type'' str_field d))
             (required ''name'' str_field d)
      | _ \<Rightarrow> Inl [([], model_type)])"

definition IntentPayload_validate :: "json \<Rightarrow> IntentPayload validated" where
  "IntentPayload_validate v =
     (case v of
        JObject d \<Rightarrow>
          ap (ap (Inr (\<lambda>e i. \<lparr>explicit = e, implicit = i\<rparr>))
                (optional ''explicit'' dict_field [] d))
             (optional ''implicit'' dict_field [] d)
      | _ \<Rightarrow> Inl [([], model_type)])"

definition IntentConstraints_validate :: "lax \<Rightarrow> json \<Rightarrow> IntentConstraints validated" where
  "IntentConstraints_validate lx v =
     (case v of
        JObject d \<Rightarrow>
          ap (ap (Inr (\<lambda>m a. \<lparr>must_not_override_existing = m, additional_constraints = a\<rparr>))
                (optional ''must_not_override_existing'' (bool_field lx) True d))
             (optional ''additional_constraints'' dict_field [] d)
      | _ \<Rightarrow> Inl [([], model_type)])"

definition ValidationRequirements_validate ::
  "lax \<Rightarrow> json \<Rightarrow> ValidationRequirements validated" where
  "ValidationRequirements_validate lx v =
     (case v of
        JObject d \<Rightarrow>
          ap (ap (ap (Inr (\<lambda>s c a. \<lparr>schema_validation = s, duplicate_check = c,
                                      additional_validations = a\<rparr>))
                    (optional ''schema_validation'' (bool_field lx) True d))
                 (optional ''duplicate_check'' (bool_field lx) True d))
             (optional ''additional_validations'' (dict_of_field (bool_field lx)) [] d)
      | _ \<Rightarrow> Inl [([], model_type)])"

text \<open>
  \<^verbatim>\<open>confidence\<close>: the constraints \<^verbatim>\<open>ge=0.0\<close> and \<^verbatim>\<open>le=1.0\<close> of the field, then the
  validator \<^verbatim>\<open>validate_confidence\<close> of the class.
\<close>

definition validate_confidence :: "pyfloat \<Rightarrow> pyfloat validated" where
  "validate_confidence v =
     (if \<not> (float_le (Finite 0) v \<and> float_le v (Finite 1))
      then Inl [([], value_error ''Confidence must be between 0.0 and 1.0'')]
      else Inr v)"

definition confidence_field :: "lax \<Rightarrow> json \<Rightarrow> pyfloat validated" where
  "confidence_field lx v =
     (case float_field lx v of
        Inl es \<Rightarrow> Inl es
      | Inr x \<Rightarrow>
          if float_lt (Finite 1) x then Inl [([], less_than_equal)]
          else if float_lt x (Finite 0) then Inl [([], greater_than_equal)]
          else validate_confidence x)"

definition IntentionSchema_validate ::
  "lax \<Rightarrow> string \<Rightarrow> dict \<Rightarrow> IntentionSchema validated" where
  "IntentionSchema_validate lx uuid4 d =
     ap (ap (ap (ap (ap (ap (ap (ap (ap (ap (ap (ap (ap (ap
       (Inr (\<lambda>a b c d' e f g h i j k l m n.
              \<lparr>intent_id = a, domain_pack_id = b, target_section = c, operation = d',
               intent_summary = e, confidence = f, entities_involved = g, payload = h,
               constraints = i, assumptions = j, ambiguities = k, suggestions = l,
               validation_requirements = m, execution_risk = n\<rparr>))
       (optional ''intent_id'' str_field uuid4 d))
       (required ''domain_pack_id'' str_field d))
       (required ''target_section'' (enum_field TargetSection_value TargetSection_members) d))
       (required ''operation'' (enum_field Operation_value Operation_members) d))
       (required ''intent_summary'' str_field d))
       (required ''confidence'' (confidence_field lx) d))
       (optional ''entities_involved'' (list_field EntityInvolved_validate) [] d))
       (required ''payload'' IntentPayload_validate d))
       (optional ''constraints'' (IntentConstraints_validate lx)
          \<lparr>must_not_override_existing = True, additional_constraints = []\<rparr> d))
       (optional ''assumptions'' (list_field str_field) [] d))
       (optional ''ambiguities'' (list_field str_field) [] d))
       (optional ''suggestions'' (list_field str_field) [] d))
       (optional ''validation_requirements'' (ValidationRequirements_validate lx)
          \<lparr>schema_validation = True, duplicate_check = True, additional_validations = []\<rparr> d))
       (required ''execution_risk'' (enum_field ExecutionRisk_value ExecutionRisk_members) d)"

text \<open>
  The conversions used in the examples: an integer is read as the float of the same value,
  nothing else is converted.
\<close>

definition strict :: lax where
  "strict = \<lparr>to_float = (\<lambda>v. case v of JInt i \<Rightarrow> Some (Finite (of_int i)) | _ \<Rightarrow> None),
             to_bool = (\<lambda>v. None)\<rparr>"

text \<open>The dictionary of a validated intent (\<^verbatim>\<open>model_dump\<close>).\<close>

definition EntityInvolved_dump :: "EntityInvolved \<Rightarrow> json" where
  "EntityInvolved_dump e =
     JObject [(''type'', JString (entity_type e)), (''name'', JString (entity_name e))]"

definition IntentionSchema_dump :: "IntentionSchema \<Rightarrow> dict" where
  "IntentionSchema_dump s =
     [(''intent_id'', JString (intent_id s)),
      (''domain_pack_id'', JString (domain_pack_id s)),
      (''target_section'', JString (TargetSection_value (target_section s))),
      (''operation'', JString (Operation_value (operation s))),
      (''intent_summary'', JString (intent_summary s)),
      (''confidence'', JFloat (confidence s)),
      (''entities_involved'', JArray (map EntityInvolved_dump (entities_involved s))),
      (''payload'', JObject [(''explicit'', JObject (explicit (payload s))),
                             (''implicit'', JObject (implicit (payload s)))]),
      (''constraints'',
         JObject [(''must_not_override_existing'',
                     JBool (must_not_override_existing (constraints s))),
                  (''additional_constraints'',
                     JObject (additional_constraints (constraints s)))]),
      (''assumptions'', JArray (map JString (assumptions s))),
      (''ambiguities'', JArray (map JString (ambiguities s))),
      (''suggestions'', JArray (map JString (suggestions s))),
      (''validation_requirements'',
         JObject [(''schema_validation'', JBool (schema_validation (validation_requirements s))),
                  (''duplicate_check'', JBool (duplicate_check (validation_requirements s))),
                  (''additional_validations'',
                     JObject (map (\<lambda>(k, b). (k, JBool b))
                                (additional_validations (validation_requirements s))))]),
      (''execution_risk'', JString (ExecutionRisk_value (execution_risk s)))]"

section \<open>Endpoint: \<^verbatim>\<open>interpret_intent\<close>\<close>





definition groq_ready :: settings where
  "groq_ready = \<lparr>LLM_PROVIDER = ''groq'', OPENAI_API_KEY = None, GROQ_API_KEY = Some ''gsk'',
                  ANTHROPIC_API_KEY = None\<rparr>"

text \<open>Settings, backends and tokens of the examples.\<close>

definition all_importable :: "string \<Rightarrow> bool" where
  "all_importable package = True"





definition add_backend :: "nat \<Rightarrow> exn + string" where
  "add_backend n = Inr ''{\"operation\":\"ADD\"}''"


text \<open>
  The errors of a validation result, and the closed interval from 0.0 to 1.0 that the
  specification requires of \<^verbatim>\<open>confidence\<close>.
\<close>

definition errors_of :: "'a validated \<Rightarrow> (loc_item list \<times> problem) list" where
  "errors_of r = (case r of Inl es \<Rightarrow> es | Inr x \<Rightarrow> [])"

definition unit_interval :: "pyfloat \<Rightarrow> bool" where
  "unit_interval c = (float_le (Finite 0) c \<and> float_le c (Finite 1))"



definition decoded :: "json option \<Rightarrow> exn + json" where
  "decoded r = (case r of Some v \<Rightarrow> Inr v | None \<Rightarrow> Inl JSONDecodeError)"





text \<open>A validated intent.\<close>

definition client_intent :: IntentionSchema where
  "client_intent =
     \<lparr>intent_id = ''token-0'', domain_pack_id = ''Legal_v01'', target_section = ENTITIES,
      operation = ADD, intent_summary = ''Add entity CLIENT'', confidence = Finite (9 / 10),
      entities_involved = [\<lparr>entity_type = ''ENTITY'', entity_name = ''CLIENT''\<rparr>],
      payload = \<lparr>explicit = [(''client_id'', JNull)], implicit = []\<rparr>,
      constraints = \<lparr>must_not_override_existing = True, additional_constraints = []\<rparr>,
      assumptions = [], ambiguities = [''which attributes are required''], suggestions = [],
      validation_requirements =
        \<lparr>schema_validation = True, duplicate_check = True,
         additional_validations = [(''naming'', False)]\<rparr>,
      execution_risk = LOW\<rparr>"

section \<open>Lookups after each block\<close>

lemma map_of_set_if_missing:
  "map_of (set_if_missing k v d) k' =
     (if k' = k \<and> map_of d k = None then Some v else map_of d k')"
  by (simp add: set_if_missing_def has_key_def update_conv')

lemma map_of_normalize_entities_involved:
  "k \<noteq> ''entities_involved'' \<Longrightarrow>
   map_of (normalize_entities_involved d) k = map_of d k"
  by (simp add: normalize_entities_involved_def update_conv'
           split: option.splits json.splits)

lemma map_of_normalize_payload:
  "k \<noteq> ''payload'' \<Longrightarrow> map_of (normalize_payload d) k = map_of d k"
  by (simp add: normalize_payload_def update_conv' split: option.splits json.splits)

lemma map_of_normalize_constraints:
  "k \<noteq> ''constraints'' \<Longrightarrow> map_of (normalize_constraints d) k = map_of d k"
  by (simp add: normalize_constraints_def update_conv' split: option.splits json.splits)

lemma map_of_normalize_validation_requirements:
  "k \<noteq> ''validation_requirements'' \<Longrightarrow>
   map_of (normalize_validation_requirements d) k = map_of d k"
  by (simp add: normalize_validation_requirements_def update_conv'
           split: option.splits json.splits)

lemma map_of_normalize_optional_lists:
  "k \<noteq> ''assumptions'' \<Longrightarrow> k \<noteq> ''ambiguities'' \<Longrightarrow> k \<noteq> ''suggestions'' \<Longrightarrow>
   map_of (normalize_optional_lists d) k = map_of d k"
  by (simp add: normalize_optional_lists_def map_of_set_if_missing)

lemma payload_after_normalize:
  "map_of (normalize_intent_data d) ''payload'' =
   map_of (normalize_payload (normalize_entities_involved d)) ''payload''"
  by (simp add: normalize_intent_data_def map_of_normalize_optional_lists
        map_of_normalize_validation_requirements map_of_normalize_constraints)

lemma payload_before_normalize:
  "map_of (normalize_entities_involved d) ''payload'' = map_of d ''payload''"
  by (simp add: map_of_normalize_entities_involved)

section \<open>Payload repair\<close>

text \<open>
  Claim C5.  For every extracted record: when \<^verbatim>\<open>payload\<close> is absent the normalized record
  has \<^verbatim>\<open>payload == {explicit: {}, implicit: {}}\<close>; when \<^verbatim>\<open>payload\<close> is a map with neither
  \<^verbatim>\<open>explicit\<close> nor \<^verbatim>\<open>implicit\<close>, the whole original map becomes the value of
  \<^verbatim>\<open>explicit\<close> and \<^verbatim>\<open>implicit\<close> is the empty map; when exactly one of the two sub-keys
  is missing, it is filled with the empty map and the other keeps its value.
\<close>

theorem normalize_payload_cases:
  "(map_of d ''payload'' = None \<longrightarrow>
      map_of (normalize_intent_data d) ''payload'' =
        Some (JObject [(''explicit'', JObject []), (''implicit'', JObject [])]))
   \<and> (map_of d ''payload'' = Some (JObject p) \<and> \<not> has_key ''explicit'' p
        \<and> \<not> has_key ''implicit'' p \<longrightarrow>
      map_of (normalize_intent_data d) ''payload'' =
        Some (JObject [(''explicit'', JObject p), (''implicit'', JObject [])]))
   \<and> (map_of d ''payload'' = Some (JObject p) \<and> \<not> has_key ''explicit'' p
        \<and> map_of p ''implicit'' = Some i \<longrightarrow>
      (\<exists>p'. map_of (normalize_intent_data d) ''payload'' = Some (JObject p')
          \<and> map_of p' ''explicit'' = Some (JObject [])
          \<and> (\<forall>k. k \<noteq> ''explicit'' \<longrightarrow> map_of p' k = map_of p k)))
   \<and> (map_of d ''payload'' = Some (JObject p) \<and> map_of p ''explicit'' = Some e
        \<and> \<not> has_key ''implicit'' p \<longrightarrow>
      (\<exists>p'. map_of (normalize_intent_data d) ''payload'' = Some (JObject p')
          \<and> map_of p' ''implicit'' = Some (JObject [])
          \<and> (\<forall>k. k \<noteq> ''implicit'' \<longrightarrow> map_of p' k = map_of p k)))"
  unfolding payload_after_normalize
  by (auto simp add: normalize_payload_def payload_before_normalize update_conv'
        map_of_set_if_missing has_key_def)

theorem normalize_payload_cases_witness:
  "map_of (normalize_intent_data [(''operation'', JString ''ADD'')]) ''payload'' =
     Some (JObject [(''explicit'', JObject []), (''implicit'', JObject [])])
   \<and> map_of (normalize_intent_data [(''payload'', JObject [(''client_id'', JNull)])]) ''payload'' =
     Some (JObject [(''explicit'', JObject [(''client_id'', JNull)]), (''implicit'', JObject [])])
   \<and> (\<exists>p'. map_of (normalize_intent_data
               [(''payload'', JObject [(''implicit'', JObject [(''a'', JInt 1)])])]) ''payload''
             = Some (JObject p')
          \<and> map_of p' ''explicit'' = Some (JObject [])
          \<and> map_of p' ''implicit'' = Some (JObject [(''a'', JInt 1)]))
   \<and> (\<exists>p'. map_of (normalize_intent_data
               [(''payload'', JObject [(''explicit'', JObject [(''a'', JInt 1)])])]) ''payload''
             = Some (JObject p')
          \<and> map_of p' ''implicit'' = Some (JObject [])
          \<and> map_of p' ''explicit'' = Some (JObject [(''a'', JInt 1)]))"
proof -
  have a: "map_of [(''operation'', JString ''ADD'')] ''payload'' = None"
    by simp
  have b: "map_of [(''payload'', JObject [(''client_id'', JNull)])] ''payload''
             = Some (JObject [(''client_id'', JNull)])
           \<and> \<not> has_key ''explicit'' [(''client_id'', JNull)]
           \<and> \<not> has_key ''implicit'' [(''client_id'', JNull)]"
    by (simp add: has_key_def)
  have c: "map_of [(''payload'', JObject [(''implicit'', JObject [(''a'', JInt 1)])])] ''payload''
             = Some (JObject [(''implicit'', JObject [(''a'', JInt 1)])])
           \<and> \<not> has_key ''explicit'' [(''implicit'', JObject [(''a'', JInt 1)])]
           \<and> map_of [(''implicit'', JObject [(''a'', JInt 1)])] ''implicit''
               = Some (JObject [(''a'', JInt 1)])"
    by (simp add: has_key_def)
  have e: "map_of [(''payload'', JObject [(''explicit'', JObject [(''a'', JInt 1)])])] ''payload''
             = Some (JObject [(''explicit'', JObject [(''a'', JInt 1)])])
           \<and> map_of [(''explicit'', JObject [(''a'', JInt 1)])] ''explicit''
               = Some (JObject [(''a'', JInt 1)])
           \<and> \<not> has_key ''implicit'' [(''explicit'', JObject [(''a'', JInt 1)])]"
    by (simp add: has_key_def)
  from a normalize_payload_cases [of "[(''operation'', JString ''ADD'')]"]
  have 1: "map_of (normalize_intent_data [(''operation'', JString ''ADD'')]) ''payload'' =
     Some (JObject [(''explicit'', JObject []), (''implicit'', JObject [])])"
    by blast
  from b normalize_payload_cases
    [of "[(''payload'', JObject [(''client_id'', JNull)])]" "[(''client_id'', JNull)]"]
  have 2: "map_of (normalize_intent_data [(''payload'', JObject [(''client_id'', JNull)])])
      ''payload'' =
     Some (JObject [(''explicit'', JObject [(''client_id'', JNull)]), (''implicit'', JObject [])])"
    by blast
  from c normalize_payload_cases
    [of "[(''payload'', JObject [(''implicit'', JObject [(''a'', JInt 1)])])]"
        "[(''implicit'', JObject [(''a'', JInt 1)])]" "JObject [(''a'', JInt 1)]"]
  obtain p' where 3: "map_of (normalize_intent_data
               [(''payload'', JObject [(''implicit'', JObject [(''a'', JInt 1)])])]) ''payload''
             = Some (JObject p')"
      "map_of p' ''explicit'' = Some (JObject [])"
      "\<forall>k. k \<noteq> ''explicit'' \<longrightarrow>
           map_of p' k = map_of [(''implicit'', JObject [(''a'', JInt 1)])] k"
    by blast
  from 3(3) have i3: "map_of p' ''implicit'' = Some (JObject [(''a'', JInt 1)])"
    by simp
  from e normalize_payload_cases
    [of "[(''payload'', JObject [(''explicit'', JObject [(''a'', JInt 1)])])]"
        "[(''explicit'', JObject [(''a'', JInt 1)])]" _ "JObject [(''a'', JInt 1)]"]
  obtain q' where 4: "map_of (normalize_intent_data
               [(''payload'', JObject [(''explicit'', JObject [(''a'', JInt 1)])])]) ''payload''
             = Some (JObject q')"
      "map_of q' ''implicit'' = Some (JObject [])"
      "\<forall>k. k \<noteq> ''implicit'' \<longrightarrow>
           map_of q' k = map_of [(''explicit'', JObject [(''a'', JInt 1)])] k"
    by blast
  from 4(3) have e4: "map_of q' ''explicit'' = Some (JObject [(''a'', JInt 1)])"
    by simp
  from 1 2 3(1,2) i3 4(1,2) e4 show ?thesis by blast
qed

lemma fix_entities_acc: "fix_entities acc es = acc @ fix_entities [] es"
proof (induction es arbitrary: acc)
  case Nil
  show ?case by simp
next
  case (Cons e es)
  have step: "\<And>a. a \<noteq> [] \<Longrightarrow> fix_entities a es = a @ fix_entities [] es"
    using Cons.IH by blast
  show ?case
    by (cases e) (use Cons.IH [of acc] in \<open>simp_all add: step\<close>)
qed

lemma fix_entities_map_filter:
  "fix_entities [] es = map repaired_entity (filter is_str_or_dict es)"
proof (induction es)
  case Nil
  show ?case by simp
next
  case (Cons e es)
  show ?case
    by (cases e)
       (simp_all add: fix_entities_acc [of "[_]"] Cons.IH is_str_or_dict_def repaired_entity_def)
qed

lemma fix_entities_append:
  "fix_entities [] (xs @ ys) = fix_entities [] xs @ fix_entities [] ys"
  by (simp add: fix_entities_map_filter)

lemma entities_after_normalize:
  "map_of (normalize_intent_data d) ''entities_involved'' =
   map_of (normalize_entities_involved d) ''entities_involved''"
  by (simp add: normalize_intent_data_def map_of_normalize_optional_lists
        map_of_normalize_validation_requirements map_of_normalize_constraints
        map_of_normalize_payload)

lemma entities_of_list:
  "map_of d ''entities_involved'' = Some (JArray es) \<Longrightarrow>
   map_of (normalize_intent_data d) ''entities_involved'' = Some (JArray (fix_entities [] es))"
  by (simp add: entities_after_normalize normalize_entities_involved_def update_conv')

section \<open>Repair of \<^verbatim>\<open>entities_involved\<close>\<close>

text \<open>
  Claim C6.  For every entry of \<^verbatim>\<open>entities_involved\<close> in an extracted record: an entry
  that is a bare string \<open>s\<close> becomes the record with type \<^verbatim>\<open>ENTITY\<close> and name \<open>s\<close>,
  and an entry that is a record with a name and no type gets the type \<^verbatim>\<open>ENTITY\<close> while
  its other fields stay as they are.  The entry keeps its place between the repaired
  entries before it and after it.  (The specification calls \<^verbatim>\<open>kind\<close> the field that the
  source names \<^verbatim>\<open>type\<close>.)
\<close>

theorem entities_string_and_untyped_record:
  "(map_of d ''entities_involved'' = Some (JArray (pre @ JString s # post)) \<longrightarrow>
      map_of (normalize_intent_data d) ''entities_involved'' =
        Some (JArray (fix_entities [] pre
                      @ JObject [(''type'', JString ''ENTITY''), (''name'', JString s)]
                      # fix_entities [] post)))
   \<and> (map_of d ''entities_involved'' = Some (JArray (pre @ JObject e # post))
        \<and> has_key ''name'' e \<and> \<not> has_key ''type'' e \<longrightarrow>
      (\<exists>e'. map_of (normalize_intent_data d) ''entities_involved'' =
               Some (JArray (fix_entities [] pre @ JObject e' # fix_entities [] post))
          \<and> map_of e' ''type'' = Some (JString ''ENTITY'')
          \<and> (\<forall>k. k \<noteq> ''type'' \<longrightarrow> map_of e' k = map_of e k)))"
  by (auto simp add: entities_of_list fix_entities_append fix_entities_acc [of "[_]"]
        entity_of_string_def entity_of_dict_def update_conv')

theorem entities_string_and_untyped_record_witness:
  "map_of (normalize_intent_data [(''entities_involved'', JArray [JString ''CLIENT''])])
     ''entities_involved'' =
     Some (JArray [JObject [(''type'', JString ''ENTITY''), (''name'', JString ''CLIENT'')]])
   \<and> (\<exists>e'. map_of (normalize_intent_data
               [(''entities_involved'', JArray [JObject [(''name'', JString ''X'')]])])
             ''entities_involved'' = Some (JArray [JObject e'])
          \<and> map_of e' ''type'' = Some (JString ''ENTITY'')
          \<and> map_of e' ''name'' = Some (JString ''X''))"
proof -
  have 1: "map_of (normalize_intent_data [(''entities_involved'', JArray [JString ''CLIENT''])])
     ''entities_involved'' =
     Some (JArray [JObject [(''type'', JString ''ENTITY''), (''name'', JString ''CLIENT'')]])"
    using entities_string_and_untyped_record
      [of "[(''entities_involved'', JArray [JString ''CLIENT''])]" "[]" "''CLIENT''" "[]"]
    by simp
  have "map_of [(''entities_involved'', JArray [JObject [(''name'', JString ''X'')]])]
          ''entities_involved'' = Some (JArray ([] @ JObject [(''name'', JString ''X'')] # []))
        \<and> has_key ''name'' [(''name'', JString ''X'')]
        \<and> \<not> has_key ''type'' [(''name'', JString ''X'')]"
    by (simp add: has_key_def)
  with entities_string_and_untyped_record
      [of "[(''entities_involved'', JArray [JObject [(''name'', JString ''X'')]])]"
          "[]" _ "[]" "[(''name'', JString ''X'')]"]
  obtain e' where e: "map_of (normalize_intent_data
               [(''entities_involved'', JArray [JObject [(''name'', JString ''X'')]])])
             ''entities_involved'' = Some (JArray (fix_entities [] [] @ JObject e' # fix_entities [] []))"
      "map_of e' ''type'' = Some (JString ''ENTITY'')"
      "\<forall>k. k \<noteq> ''type'' \<longrightarrow> map_of e' k = map_of [(''name'', JString ''X'')] k"
    by blast
  from e(3) have "map_of e' ''name'' = Some (JString ''X'')" by simp
  with 1 e(1,2) show ?thesis by simp
qed

text \<open>
  Claim C10.  During normalization an entry of \<^verbatim>\<open>entities_involved\<close> that is neither a
  string nor a record (a number or null, say) is dropped without notice, so the normalized
  sequence is strictly shorter than the input exactly when the input has such an entry;
  the entries that are strings or records are all kept, repaired, in their original order.
\<close>

theorem entities_dropped_or_kept:
  "map_of d ''entities_involved'' = Some (JArray es) \<Longrightarrow>
   map_of (normalize_intent_data d) ''entities_involved'' =
     Some (JArray (map repaired_entity (filter is_str_or_dict es)))
   \<and> (length (map repaired_entity (filter is_str_or_dict es)) < length es
        \<longleftrightarrow> (\<exists>e \<in> set es. \<not> is_str_or_dict e))"
proof -
  assume a: "map_of d ''entities_involved'' = Some (JArray es)"
  have "length (filter is_str_or_dict es) < length es \<longleftrightarrow> (\<exists>e \<in> set es. \<not> is_str_or_dict e)"
  proof
    assume l: "length (filter is_str_or_dict es) < length es"
    show "\<exists>e \<in> set es. \<not> is_str_or_dict e"
    proof (rule ccontr)
      assume "\<not> (\<exists>e \<in> set es. \<not> is_str_or_dict e)"
      then have "filter is_str_or_dict es = es" by (simp add: filter_id_conv)
      with l show False by simp
    qed
  next
    assume "\<exists>e \<in> set es. \<not> is_str_or_dict e"
    then show "length (filter is_str_or_dict es) < length es"
      by (auto intro: length_filter_less)
  qed
  with a show ?thesis by (simp add: entities_of_list fix_entities_map_filter)
qed

theorem entities_dropped_or_kept_witness:
  "map_of (normalize_intent_data
      [(''entities_involved'',
        JArray [JString ''CLIENT'', JInt 5, JNull, JObject [(''name'', JString ''X'')]])])
     ''entities_involved'' =
     Some (JArray [JObject [(''type'', JString ''ENTITY''), (''name'', JString ''CLIENT'')],
                   JObject [(''name'', JString ''X''), (''type'', JString ''ENTITY'')]])
   \<and> length (map repaired_entity (filter is_str_or_dict
              [JString ''CLIENT'', JInt 5, JNull, JObject [(''name'', JString ''X'')]])) < 4"
  using entities_dropped_or_kept
    [of "[(''entities_involved'',
           JArray [JString ''CLIENT'', JInt 5, JNull, JObject [(''name'', JString ''X'')]])]"
        "[JString ''CLIENT'', JInt 5, JNull, JObject [(''name'', JString ''X'')]]"]
  by (simp add: is_str_or_dict_def repaired_entity_def entity_of_string_def entity_of_dict_def
        has_key_def)


lemma string_at_has_key: "string_at r k \<Longrightarrow> has_key k r"
  by (auto simp add: string_at_def has_key_def split: option.splits)

lemma bool_at_has_key: "bool_at r k \<Longrightarrow> has_key k r"
  by (auto simp add: bool_at_def has_key_def split: option.splits)

lemma map_at_has_key: "map_at r k \<Longrightarrow> has_key k r"
  by (auto simp add: map_at_def has_key_def split: option.splits)

lemma set_if_missing_present: "has_key k d \<Longrightarrow> set_if_missing k v d = d"
  by (simp add: set_if_missing_def)

lemma canonical_entity_kept:
  "canonical_entity e \<Longrightarrow> is_str_or_dict e \<and> repaired_entity e = e"
  by (cases e)
     (auto simp add: canonical_entity_def is_str_or_dict_def repaired_entity_def
        entity_of_dict_def dest: string_at_has_key)

lemma fix_entities_canonical:
  "list_all canonical_entity es \<Longrightarrow> fix_entities [] es = es"
  unfolding fix_entities_map_filter
  by (induction es) (simp_all add: canonical_entity_kept)

lemma keep_entities:
  "map_of d k = Some v \<Longrightarrow> canonical_shape k v \<Longrightarrow>
   map_of (normalize_entities_involved d) k = Some v"
proof (cases "k = ''entities_involved''")
  case False
  assume "map_of d k = Some v"
  with False show ?thesis by (simp add: map_of_normalize_entities_involved)
next
  case True
  assume a: "map_of d k = Some v" and c: "canonical_shape k v"
  from True c obtain es where v: "v = JArray es" and es: "list_all canonical_entity es"
    by (auto simp add: canonical_shape_def split: json.splits)
  from True a v es show ?thesis
    by (simp add: normalize_entities_involved_def fix_entities_canonical update_conv')
qed

lemma keep_payload:
  "map_of d k = Some v \<Longrightarrow> canonical_shape k v \<Longrightarrow> map_of (normalize_payload d) k = Some v"
proof (cases "k = ''payload''")
  case False
  assume "map_of d k = Some v"
  with False show ?thesis by (simp add: map_of_normalize_payload)
next
  case True
  assume a: "map_of d k = Some v" and c: "canonical_shape k v"
  from True c obtain r where v: "v = JObject r"
    and r: "has_key ''explicit'' r" "has_key ''implicit'' r"
    by (auto simp add: canonical_shape_def split: json.splits dest: map_at_has_key)
  from True a v r show ?thesis
    by (simp add: normalize_payload_def set_if_missing_present update_conv')
qed

lemma keep_constraints:
  "map_of d k = Some v \<Longrightarrow> canonical_shape k v \<Longrightarrow>
   map_of (normalize_constraints d) k = Some v"
proof (cases "k = ''constraints''")
  case False
  assume "map_of d k = Some v"
  with False show ?thesis by (simp add: map_of_normalize_constraints)
next
  case True
  assume a: "map_of d k = Some v" and c: "canonical_shape k v"
  from True c obtain r where v: "v = JObject r"
    and r: "has_key ''must_not_override_existing'' r" "has_key ''additional_constraints'' r"
    by (auto simp add: canonical_shape_def split: json.splits
          dest: map_at_has_key bool_at_has_key)
  from True a v r show ?thesis
    by (simp add: normalize_constraints_def set_if_missing_present update_conv')
qed

lemma keep_validation_requirements:
  "map_of d k = Some v \<Longrightarrow> canonical_shape k v \<Longrightarrow>
   map_of (normalize_validation_requirements d) k = Some v"
proof (cases "k = ''validation_requirements''")
  case False
  assume "map_of d k = Some v"
  with False show ?thesis by (simp add: map_of_normalize_validation_requirements)
next
  case True
  assume a: "map_of d k = Some v" and c: "canonical_shape k v"
  from True c obtain r where v: "v = JObject r"
    and r: "has_key ''schema_validation'' r" "has_key ''duplicate_check'' r"
           "has_key ''additional_validations'' r"
    by (auto simp add: canonical_shape_def split: json.splits
          dest: map_at_has_key bool_at_has_key)
  from True a v r show ?thesis
    by (simp add: normalize_validation_requirements_def set_if_missing_present update_conv')
qed

lemma keep_optional_lists:
  "map_of d k = Some v \<Longrightarrow> map_of (normalize_optional_lists d) k = Some v"
  by (auto simp add: normalize_optional_lists_def map_of_set_if_missing)

lemma untouched_key:
  "k \<notin> {''entities_involved'', ''payload'', ''constraints'', ''validation_requirements'',
          ''assumptions'', ''ambiguities'', ''suggestions''} \<Longrightarrow>
   map_of (normalize_intent_data d) k = map_of d k"
  by (simp add: normalize_intent_data_def map_of_normalize_optional_lists
        map_of_normalize_validation_requirements map_of_normalize_constraints
        map_of_normalize_payload map_of_normalize_entities_involved)

section \<open>What normalization leaves alone\<close>

text \<open>
  Claim C4.  For every extracted record, normalization never changes a key whose value is
  already present and well-typed (of the canonical shape), and it never adds, invents or
  repairs a value for \<^verbatim>\<open>target_section\<close>, \<^verbatim>\<open>operation\<close>, the summary
  (\<^verbatim>\<open>intent_summary\<close> in the source), \<^verbatim>\<open>confidence\<close> or \<^verbatim>\<open>execution_risk\<close>: each of
  the five is present with the same value, or absent, in the normalized record as in the
  input.
\<close>

theorem normalize_frame:
  "(map_of d k = Some v \<and> canonical_shape k v \<longrightarrow>
      map_of (normalize_intent_data d) k = Some v)
   \<and> (k \<in> {''target_section'', ''operation'', ''intent_summary'', ''confidence'',
             ''execution_risk''} \<longrightarrow>
      map_of (normalize_intent_data d) k = map_of d k)"
proof (intro conjI impI)
  assume "map_of d k = Some v \<and> canonical_shape k v"
  then show "map_of (normalize_intent_data d) k = Some v"
    unfolding normalize_intent_data_def
    by (intro keep_optional_lists keep_validation_requirements keep_constraints
          keep_payload keep_entities) simp_all
next
  assume "k \<in> {''target_section'', ''operation'', ''intent_summary'', ''confidence'',
             ''execution_risk''}"
  then show "map_of (normalize_intent_data d) k = map_of d k"
    by (intro untouched_key) auto
qed

theorem normalize_frame_witness:
  "map_of (normalize_intent_data
      [(''confidence'', JString ''high''),
       (''payload'', JObject [(''explicit'', JObject [(''a'', JInt 1)]),
                              (''implicit'', JObject [])])]) ''payload''
     = Some (JObject [(''explicit'', JObject [(''a'', JInt 1)]), (''implicit'', JObject [])])
   \<and> map_of (normalize_intent_data
      [(''confidence'', JString ''high''),
       (''payload'', JObject [(''explicit'', JObject [(''a'', JInt 1)]),
                              (''implicit'', JObject [])])]) ''confidence''
     = Some (JString ''high'')
   \<and> map_of (normalize_intent_data
      [(''confidence'', JString ''high''),
       (''payload'', JObject [(''explicit'', JObject [(''a'', JInt 1)]),
                              (''implicit'', JObject [])])]) ''operation''
     = None"
proof -
  let ?d = "[(''confidence'', JString ''high''),
       (''payload'', JObject [(''explicit'', JObject [(''a'', JInt 1)]),
                              (''implicit'', JObject [])])]"
  let ?p = "JObject [(''explicit'', JObject [(''a'', JInt 1)]), (''implicit'', JObject [])]"
  have c: "map_of ?d ''payload'' = Some ?p \<and> canonical_shape ''payload'' ?p"
    by (simp add: canonical_shape_def map_at_def)
  from c normalize_frame [of ?d "''payload''" ?p]
  have 1: "map_of (normalize_intent_data ?d) ''payload'' = Some ?p" by blast
  from normalize_frame [of ?d "''confidence''"]
  have 2: "map_of (normalize_intent_data ?d) ''confidence'' = Some (JString ''high'')" by simp
  from normalize_frame [of ?d "''operation''"]
  have 3: "map_of (normalize_intent_data ?d) ''operation'' = None" by simp
  from 1 2 3 show ?thesis by blast
qed

section \<open>Retry policy\<close>

lemma retrying_at_3:
  "retrying call 3 slept =
     (case call 3 of
        Inr x \<Rightarrow> \<lparr>outcome = Inr x, attempts = 3, sleeps = slept\<rparr>
      | Inl e \<Rightarrow> \<lparr>outcome = Inl (RetryError e), attempts = 3, sleeps = slept\<rparr>)"
  by (subst retrying.simps) (simp add: stop_after_attempt_def split: sum.splits)

lemma retrying_at_2:
  "retrying call 2 slept =
     (case call 2 of
        Inr x \<Rightarrow> \<lparr>outcome = Inr x, attempts = 2, sleeps = slept\<rparr>
      | Inl e \<Rightarrow> retrying call 3 (slept @ [2]))"
  by (subst retrying.simps)
     (simp add: stop_after_attempt_def wait_exponential_def split: sum.splits)

lemma retrying_at_1:
  "retrying call 1 slept =
     (case call 1 of
        Inr x \<Rightarrow> \<lparr>outcome = Inr x, attempts = 1, sleeps = slept\<rparr>
      | Inl e \<Rightarrow> retrying call 2 (slept @ [2]))"
  by (subst retrying.simps)
     (simp add: stop_after_attempt_def wait_exponential_def del: One_nat_def
        split: sum.splits)

lemma generate_unfolded:
  "generate call =
     (case call 1 of
        Inr x \<Rightarrow> \<lparr>outcome = Inr x, attempts = 1, sleeps = []\<rparr>
      | Inl e1 \<Rightarrow>
         (case call 2 of
            Inr x \<Rightarrow> \<lparr>outcome = Inr x, attempts = 2, sleeps = [2]\<rparr>
          | Inl e2 \<Rightarrow>
             (case call 3 of
                Inr x \<Rightarrow> \<lparr>outcome = Inr x, attempts = 3, sleeps = [2, 2]\<rparr>
              | Inl e3 \<Rightarrow> \<lparr>outcome = Inl (RetryError e3), attempts = 3, sleeps = [2, 2]\<rparr>)))"
  unfolding generate_def retrying_at_1 retrying_at_2 retrying_at_3
  by (simp split: sum.splits)




section \<open>Identifiers filled in by the orchestrator\<close>

lemma intent_id_after_normalize:
  "map_of (normalize_intent_data d) ''intent_id'' = map_of d ''intent_id''"
  by (rule untouched_key) simp

lemma domain_pack_id_after_normalize:
  "map_of (normalize_intent_data d) ''domain_pack_id'' = map_of d ''domain_pack_id''"
  by (rule untouched_key) simp

text \<open>
  Claim C9.  After normalization the orchestrator, not the normalizer, fills in
  \<^verbatim>\<open>intent_id\<close> with the freshly generated token when it is absent, and the target
  identifier (\<^verbatim>\<open>domain_pack_id\<close> in the source) with the document identifier of the
  request when it is absent; a key that is present keeps its value, and the normalizer
  leaves both keys as they are in the decoded record.
\<close>

theorem orchestrator_fills_identifiers:
  "get_llm_provider importable cfg = Inr p \<and> outcome (generate call) = Inr raw
     \<and> parse_llm_output loads raw = Inr (JObject d) \<longrightarrow>
   (\<exists>intent_data.
      outcome (generate_intent importable cfg call loads uuid4 pack_id) = Inr intent_data
      \<and> map_of intent_data ''intent_id'' =
          (case map_of d ''intent_id'' of None \<Rightarrow> Some (JString uuid4) | Some v \<Rightarrow> Some v)
      \<and> map_of intent_data ''domain_pack_id'' =
          (case map_of d ''domain_pack_id'' of
             None \<Rightarrow> Some (JString pack_id) | Some v \<Rightarrow> Some v)
      \<and> (\<forall>k. k \<noteq> ''intent_id'' \<and> k \<noteq> ''domain_pack_id'' \<longrightarrow>
             map_of intent_data k = map_of (normalize_intent_data d) k))
   \<and> map_of (normalize_intent_data d) ''intent_id'' = map_of d ''intent_id''
   \<and> map_of (normalize_intent_data d) ''domain_pack_id'' = map_of d ''domain_pack_id''"
  by (auto simp add: generate_intent_def normalize_decoded_def Let_def map_of_set_if_missing
        intent_id_after_normalize domain_pack_id_after_normalize split: option.splits)

lemma add_backend_decoded:
  "parse_llm_output json_loads ''{\"operation\":\"ADD\"}'' = Inr (JObject [(''operation'', JString ''ADD'')])"
  by code_simp

theorem orchestrator_fills_identifiers_witness:
  "\<exists>intent_data.
      outcome (generate_intent all_importable groq_ready add_backend json_loads ''token-0''
                 ''Legal_v01'') = Inr intent_data
      \<and> map_of intent_data ''intent_id'' = Some (JString ''token-0'')
      \<and> map_of intent_data ''domain_pack_id'' = Some (JString ''Legal_v01'')
      \<and> map_of intent_data ''operation'' = Some (JString ''ADD'')"
proof -
  have p: "get_llm_provider all_importable groq_ready = Inr GroqProvider"
    by (simp add: get_llm_provider_def lower_def lower_char_def GroqProvider_init_def
          all_importable_def falsy_def groq_ready_def)
  have g: "outcome (generate add_backend) = Inr ''{\"operation\":\"ADD\"}''"
    by (simp add: generate_unfolded add_backend_def)
  from p g add_backend_decoded
    orchestrator_fills_identifiers [of all_importable groq_ready GroqProvider add_backend _
      json_loads "[(''operation'', JString ''ADD'')]" "''token-0''" "''Legal_v01''"]
  obtain intent_data where i:
    "outcome (generate_intent all_importable groq_ready add_backend json_loads ''token-0''
                 ''Legal_v01'') = Inr intent_data"
    "map_of intent_data ''intent_id'' =
          (case map_of [(''operation'', JString ''ADD'')] ''intent_id'' of
             None \<Rightarrow> Some (JString ''token-0'') | Some v \<Rightarrow> Some v)"
    "map_of intent_data ''domain_pack_id'' =
          (case map_of [(''operation'', JString ''ADD'')] ''domain_pack_id'' of
             None \<Rightarrow> Some (JString ''Legal_v01'') | Some v \<Rightarrow> Some v)"
    "\<forall>k. k \<noteq> ''intent_id'' \<and> k \<noteq> ''domain_pack_id'' \<longrightarrow>
             map_of intent_data k = map_of (normalize_intent_data [(''operation'', JString ''ADD'')]) k"
    by blast
  from i(4) have "map_of intent_data ''operation'' =
     map_of (normalize_intent_data [(''operation'', JString ''ADD'')]) ''operation''"
    by simp
  also have "\<dots> = Some (JString ''ADD'')"
    by (simp add: untouched_key)
  finally have o: "map_of intent_data ''operation'' = Some (JString ''ADD'')" .
  from i(1) i(2) i(3) o show ?thesis by simp
qed

section \<open>Error codes\<close>




section \<open>Validation of \<^verbatim>\<open>confidence\<close>\<close>

lemma errors_of_ap: "errors_of (ap f x) = errors_of f @ errors_of x"
  by (cases f; cases x) (simp_all add: errors_of_def)

lemma isl_ap: "isl (ap f x) = (isl f \<or> isl x)"
  by (cases f; cases x) simp_all

lemma ap_Inr_iff: "ap f x = Inr y \<longleftrightarrow> (\<exists>g a. f = Inr g \<and> x = Inr a \<and> y = g a)"
  by (cases f; cases x) auto

lemma Inl_errors_of: "isl r \<Longrightarrow> r = Inl (errors_of r)"
  by (cases r) (simp_all add: errors_of_def)

lemma errors_of_Inl: "r = Inl es \<Longrightarrow> errors_of r = es"
  by (simp add: errors_of_def)

lemma errors_of_required:
  "e \<in> set (errors_of (required k f d)) \<Longrightarrow> \<exists>rest. fst e = Key k # rest"
  by (auto simp add: required_def located_def errors_of_def split: option.splits sum.splits)

lemma errors_of_optional:
  "e \<in> set (errors_of (optional k f dflt d)) \<Longrightarrow> \<exists>rest. fst e = Key k # rest"
  by (auto simp add: optional_def located_def errors_of_def split: option.splits sum.splits)

lemma confidence_field_in_range:
  "float_field lx x = Inr c \<Longrightarrow> unit_interval c \<Longrightarrow> confidence_field lx x = Inr c"
  by (cases c)
     (simp_all add: unit_interval_def confidence_field_def validate_confidence_def)

lemma confidence_field_out_of_range:
  "float_field lx x = Inr c \<Longrightarrow> \<not> unit_interval c \<Longrightarrow>
   \<exists>pb. confidence_field lx x = Inl [([], pb)]"
  by (cases c)
     (auto simp add: unit_interval_def confidence_field_def validate_confidence_def)

lemma confidence_field_sound:
  "confidence_field lx x = Inr c \<Longrightarrow> unit_interval c"
  by (auto simp add: confidence_field_def validate_confidence_def unit_interval_def
        split: sum.splits if_splits)

text \<open>
  Claim C7.  Validation of \<^verbatim>\<open>confidence\<close> uses the closed interval from 0.0 to 1.0,
  both ends included: a confidence in the interval is accepted unchanged (it is the
  confidence of the validated intent, not a clamped value, and no error refers to it), and
  for a confidence outside the interval validation fails with an error whose field path is
  \<^verbatim>\<open>confidence\<close>.  Here \<open>c\<close> is the float that the input \<open>x\<close> of the field denotes, \<open>x\<close>
  itself when it is a float.  Every validated intent has its confidence in the interval.
\<close>

theorem confidence_closed_interval:
  "(map_of d ''confidence'' = Some x \<and> float_field lx x = Inr c \<and> unit_interval c \<longrightarrow>
      confidence_field lx x = Inr c
      \<and> (\<forall>e \<in> set (errors_of (IntentionSchema_validate lx u d)).
            \<forall>rest. fst e \<noteq> Key ''confidence'' # rest)
      \<and> (\<forall>s. IntentionSchema_validate lx u d = Inr s \<longrightarrow> confidence s = c))
   \<and> (map_of d ''confidence'' = Some x \<and> float_field lx x = Inr c \<and> \<not> unit_interval c \<longrightarrow>
      (\<exists>errs. IntentionSchema_validate lx u d = Inl errs
         \<and> (\<exists>e \<in> set errs. fst e = [Key ''confidence''])))
   \<and> (\<forall>s. IntentionSchema_validate lx u d = Inr s \<longrightarrow> unit_interval (confidence s))
   \<and> float_field lx (JFloat c) = Inr c
   \<and> unit_interval (Finite 0) \<and> unit_interval (Finite 1)"
proof (intro conjI impI allI)
  assume a: "map_of d ''confidence'' = Some x \<and> float_field lx x = Inr c \<and> unit_interval c"
  then show "confidence_field lx x = Inr c"
    by (simp add: confidence_field_in_range)
  from a have r: "required ''confidence'' (confidence_field lx) d = Inr c"
    by (simp add: required_def located_def confidence_field_in_range)
  show "\<forall>e \<in> set (errors_of (IntentionSchema_validate lx u d)).
            \<forall>rest. fst e \<noteq> Key ''confidence'' # rest"
    unfolding IntentionSchema_validate_def errors_of_ap r
    by (auto simp add: errors_of_def [of "Inr _"] dest!: errors_of_required errors_of_optional)
  fix s
  assume "IntentionSchema_validate lx u d = Inr s"
  with r show "confidence s = c"
    by (auto simp add: IntentionSchema_validate_def ap_Inr_iff)
next
  assume a: "map_of d ''confidence'' = Some x \<and> float_field lx x = Inr c \<and> \<not> unit_interval c"
  then obtain pb where "confidence_field lx x = Inl [([], pb)]"
    using confidence_field_out_of_range by blast
  with a have r: "required ''confidence'' (confidence_field lx) d = Inl [([Key ''confidence''], pb)]"
    by (simp add: required_def located_def)
  have "isl (IntentionSchema_validate lx u d)"
    unfolding IntentionSchema_validate_def by (simp add: isl_ap r)
  then have i: "IntentionSchema_validate lx u d = Inl (errors_of (IntentionSchema_validate lx u d))"
    by (rule Inl_errors_of)
  have "([Key ''confidence''], pb) \<in> set (errors_of (IntentionSchema_validate lx u d))"
    unfolding IntentionSchema_validate_def errors_of_ap r
    by (simp add: errors_of_def [of "Inl _"])
  with i show "\<exists>errs. IntentionSchema_validate lx u d = Inl errs
         \<and> (\<exists>e \<in> set errs. fst e = [Key ''confidence''])"
    by force
next
  fix s
  assume "IntentionSchema_validate lx u d = Inr s"
  then obtain y where "required ''confidence'' (confidence_field lx) d = Inr y" "confidence s = y"
    by (auto simp add: IntentionSchema_validate_def ap_Inr_iff)
  then show "unit_interval (confidence s)"
    by (auto simp add: required_def located_def split: option.splits sum.splits
          dest: confidence_field_sound)
qed (simp_all add: unit_interval_def float_field_def)

theorem confidence_closed_interval_witness:
  "confidence_field strict (JFloat (Finite 1)) = Inr (Finite 1)
   \<and> confidence_field strict (JFloat (Finite 0)) = Inr (Finite 0)
   \<and> (\<exists>errs. IntentionSchema_validate strict ''u'' [(''confidence'', JFloat (Finite (3 / 2)))]
                = Inl errs
         \<and> (\<exists>e \<in> set errs. fst e = [Key ''confidence'']))
   \<and> (\<exists>errs. IntentionSchema_validate strict ''u'' [(''confidence'', JInt 2)] = Inl errs
         \<and> (\<exists>e \<in> set errs. fst e = [Key ''confidence'']))"
proof -
  have i1: "map_of [(''confidence'', JFloat (Finite 1))] ''confidence'' = Some (JFloat (Finite 1))
            \<and> float_field strict (JFloat (Finite 1)) = Inr (Finite 1)
            \<and> unit_interval (Finite 1)"
    by (simp add: unit_interval_def float_field_def)
  have i0: "map_of [(''confidence'', JFloat (Finite 0))] ''confidence'' = Some (JFloat (Finite 0))
            \<and> float_field strict (JFloat (Finite 0)) = Inr (Finite 0)
            \<and> unit_interval (Finite 0)"
    by (simp add: unit_interval_def float_field_def)
  have o: "map_of [(''confidence'', JFloat (Finite (3 / 2)))] ''confidence''
             = Some (JFloat (Finite (3 / 2)))
           \<and> float_field strict (JFloat (Finite (3 / 2))) = Inr (Finite (3 / 2))
           \<and> \<not> unit_interval (Finite (3 / 2))"
    by (simp add: unit_interval_def float_field_def)
  have n: "map_of [(''confidence'', JInt 2)] ''confidence'' = Some (JInt 2)
           \<and> float_field strict (JInt 2) = Inr (Finite 2)
           \<and> \<not> unit_interval (Finite 2)"
    by (simp add: unit_interval_def float_field_def strict_def)
  from i1 confidence_closed_interval
    [of "[(''confidence'', JFloat (Finite 1))]" "JFloat (Finite 1)" strict "Finite 1"]
  have 1: "confidence_field strict (JFloat (Finite 1)) = Inr (Finite 1)" by blast
  from i0 confidence_closed_interval
    [of "[(''confidence'', JFloat (Finite 0))]" "JFloat (Finite 0)" strict "Finite 0"]
  have 2: "confidence_field strict (JFloat (Finite 0)) = Inr (Finite 0)" by blast
  from o confidence_closed_interval
    [of "[(''confidence'', JFloat (Finite (3 / 2)))]" "JFloat (Finite (3 / 2))" strict
        "Finite (3 / 2)" "''u''"]
  have 3: "\<exists>errs. IntentionSchema_validate strict ''u'' [(''confidence'', JFloat (Finite (3 / 2)))]
                = Inl errs
         \<and> (\<exists>e \<in> set errs. fst e = [Key ''confidence''])"
    by blast
  from n confidence_closed_interval
    [of "[(''confidence'', JInt 2)]" "JInt 2" strict "Finite 2" "''u''"]
  have 4: "\<exists>errs. IntentionSchema_validate strict ''u'' [(''confidence'', JInt 2)] = Inl errs
         \<and> (\<exists>e \<in> set errs. fst e = [Key ''confidence''])"
    by blast
  from 1 2 3 4 show ?thesis by blast
qed

section \<open>Validation of a validated intent\<close>

lemma each_item_strings: "each_item str_field i (map JString xs) = Inr xs"
  by (induction xs arbitrary: i) (simp_all add: str_field_def located_def)

lemma EntityInvolved_roundtrip: "EntityInvolved_validate (EntityInvolved_dump e) = Inr e"
  by (simp add: EntityInvolved_validate_def EntityInvolved_dump_def required_def located_def
        str_field_def)

lemma each_item_entities:
  "each_item EntityInvolved_validate i (map EntityInvolved_dump es) = Inr es"
  by (induction es arbitrary: i) (simp_all add: EntityInvolved_roundtrip located_def)

lemma each_entry_bools:
  "each_entry (bool_field lx) (map (\<lambda>(k, b). (k, JBool b)) kvs) = Inr kvs"
  by (induction kvs) (auto simp add: bool_field_def located_def)

lemma TargetSection_roundtrip:
  "enum_field TargetSection_value TargetSection_members (JString (TargetSection_value t)) = Inr t"
  by (cases t) (simp_all add: enum_field_def TargetSection_members_def)

lemma Operation_roundtrip:
  "enum_field Operation_value Operation_members (JString (Operation_value t)) = Inr t"
  by (cases t) (simp_all add: enum_field_def Operation_members_def)

lemma ExecutionRisk_roundtrip:
  "enum_field ExecutionRisk_value ExecutionRisk_members (JString (ExecutionRisk_value t)) = Inr t"
  by (cases t) (simp_all add: enum_field_def ExecutionRisk_members_def)

lemma IntentPayload_roundtrip:
  "IntentPayload_validate
     (JObject [(''explicit'', JObject (explicit p)), (''implicit'', JObject (implicit p))]) = Inr p"
  by (simp add: IntentPayload_validate_def optional_def located_def dict_field_def)

lemma IntentConstraints_roundtrip:
  "IntentConstraints_validate lx
     (JObject [(''must_not_override_existing'', JBool (must_not_override_existing c)),
               (''additional_constraints'', JObject (additional_constraints c))]) = Inr c"
  by (simp add: IntentConstraints_validate_def optional_def located_def dict_field_def
        bool_field_def)

lemma ValidationRequirements_roundtrip:
  "ValidationRequirements_validate lx
     (JObject [(''schema_validation'', JBool (schema_validation r)),
               (''duplicate_check'', JBool (duplicate_check r)),
               (''additional_validations'',
                  JObject (map (\<lambda>(k, b). (k, JBool b)) (additional_validations r)))]) = Inr r"
  by (simp add: ValidationRequirements_validate_def optional_def located_def dict_of_field_def
        bool_field_def each_entry_bools)

text \<open>
  Claim C8.  For every valid intent \<open>V\<close>, running the validator on \<open>V\<close> succeeds and
  returns \<open>V\<close> unchanged.
\<close>

theorem validation_idempotent:
  "unit_interval (confidence s) \<Longrightarrow>
   IntentionSchema_validate lx u (IntentionSchema_dump s) = Inr s"
  by (simp add: IntentionSchema_validate_def IntentionSchema_dump_def required_def optional_def
        located_def str_field_def list_field_def each_item_strings each_item_entities
        TargetSection_roundtrip Operation_roundtrip ExecutionRisk_roundtrip
        IntentPayload_roundtrip IntentConstraints_roundtrip ValidationRequirements_roundtrip
        confidence_field_in_range float_field_def)

theorem validation_idempotent_witness:
  "IntentionSchema_validate strict ''token-1'' (IntentionSchema_dump client_intent)
     = Inr client_intent"
proof -
  have "unit_interval (confidence client_intent)"
    by (simp add: client_intent_def unit_interval_def)
  then show ?thesis by (rule validation_idempotent)
qed


section \<open>Order of the extraction attempts\<close>


























end
